theory Spec2Isabelle
  imports Complex_Main "HOL-Library.AList" "HOL-Library.Sublist"
begin

section \<open>JavaScript values\<close>

text \<open>
  The rows of MyTableJs are plain JavaScript objects whose fields hold strings, numbers
  and booleans. Numbers are modelled by the integers together with \<open>NaN\<close>: the ids,
  the counter, the page number and the page size of the widget are integers. A JavaScript
  number is a double: every integer up to \<open>2^53\<close> in absolute value is one, and sums of
  such integers are exact as long as the result stays in that range; the one sum that the
  widget computes on ids, \<open>rowIdCounter++\<close>, is modelled with its rounding (\<open>increment\<close>
  below). Fractions and the infinities are outside this model. Strings are lists of ASCII
  characters.

  \<open>JObj t\<close> is an object or a function that is not a primitive value, given by the text
  \<open>t\<close> that \<open>String()\<close> yields for it; such values are truthy.
\<close>

datatype jsnum = NaN | Num int

datatype jsval = Undefined | Null | JBool bool | JNum jsnum | JStr string | JObj string

text \<open>
  A row is a plain object: a finite map from the names of its own fields to values, and
  \<open>Object.prototype\<close> behind it. The members of \<open>Object.prototype\<close> are built-in
  functions, whose text is \<open>function name() { [native code] }\<close> (the white space in it
  differs between engines, the name does not), and the accessor \<open>__proto__\<close>, which
  yields \<open>Object.prototype\<close> itself.
\<close>

type_synonym row = "string \<rightharpoonup> jsval"

definition Object_prototype :: row where
  "Object_prototype = map_of
     [(''constructor'', JObj ''function Object() { [native code] }''),
      (''__defineGetter__'', JObj ''function __defineGetter__() { [native code] }''),
      (''__defineSetter__'', JObj ''function __defineSetter__() { [native code] }''),
      (''hasOwnProperty'', JObj ''function hasOwnProperty() { [native code] }''),
      (''__lookupGetter__'', JObj ''function __lookupGetter__() { [native code] }''),
      (''__lookupSetter__'', JObj ''function __lookupSetter__() { [native code] }''),
      (''isPrototypeOf'', JObj ''function isPrototypeOf() { [native code] }''),
      (''propertyIsEnumerable'', JObj ''function propertyIsEnumerable() { [native code] }''),
      (''toString'', JObj ''function toString() { [native code] }''),
      (''valueOf'', JObj ''function valueOf() { [native code] }''),
      (''__proto__'', JObj ''[object Object]''),
      (''toLocaleString'', JObj ''function toLocaleString() { [native code] }'')]"

text \<open>\<open>row[k]\<close>: the row's own field if it has one under that name, else the member of
  \<open>Object.prototype\<close> under that name, else \<open>undefined\<close>.\<close>

definition getProp :: "row \<Rightarrow> string \<Rightarrow> jsval" where
  "getProp r k =
     (case r k of
        Some v \<Rightarrow> v
      | None \<Rightarrow> (case Object_prototype k of Some v \<Rightarrow> v | None \<Rightarrow> Undefined))"

text \<open>Truthiness, as used by \<open>||\<close> and \<open>!\<close>.\<close>

fun truthy :: "jsval \<Rightarrow> bool" where
  "truthy Undefined = False"
| "truthy Null = False"
| "truthy (JBool b) = b"
| "truthy (JNum NaN) = False"
| "truthy (JNum (Num n)) = (n \<noteq> 0)"
| "truthy (JStr s) = (s \<noteq> [])"
| "truthy (JObj t) = True"

text \<open>\<open>a || b\<close> and \<open>a ?? b\<close>.\<close>

definition js_or :: "jsval \<Rightarrow> jsval \<Rightarrow> jsval" where
  "js_or a b = (if truthy a then a else b)"

definition nullish :: "jsval \<Rightarrow> jsval \<Rightarrow> jsval" where
  "nullish a b = (if a = Undefined \<or> a = Null then b else a)"

subsection \<open>Strings\<close>

text \<open>The white space that \<open>trim\<close> and \<open>Number\<close> strip: tab, line feed, vertical
  tab, form feed, carriage return and space.\<close>

definition is_space :: "char \<Rightarrow> bool" where
  "is_space c = (of_char c \<in> {9, 10, 11, 12, 13, 32 :: nat})"

definition trim :: "string \<Rightarrow> string" where
  "trim s = rev (dropWhile is_space (rev (dropWhile is_space s)))"

definition lower :: "char \<Rightarrow> char" where
  "lower c = (let n = of_char c :: nat in if 65 \<le> n \<and> n \<le> 90 then char_of (n + 32) else c)"

definition toLowerCase :: "string \<Rightarrow> string" where
  "toLowerCase s = map lower s"

text \<open>\<open>s.split(',')\<close>: the pieces between the commas, empty pieces included; the
  result is never empty (\<open>''.split(',')\<close> is \<open>['']\<close>).\<close>

fun split_comma :: "string \<Rightarrow> string list" where
  "split_comma [] = [[]]"
| "split_comma (c # cs) =
     (if c = CHR '','' then [] # split_comma cs
      else (c # hd (split_comma cs)) # tl (split_comma cs))"

text \<open>\<open>s.includes(w)\<close>: \<open>w\<close> occurs in \<open>s\<close> as a contiguous block.\<close>

fun js_includes :: "string \<Rightarrow> string \<Rightarrow> bool" where
  "js_includes [] w = (w = [])"
| "js_includes (c # cs) w = (prefix w (c # cs) \<or> js_includes cs w)"

subsection \<open>Conversions\<close>

text \<open>\<open>String(n)\<close> for an integer: decimal digits, with a minus sign for negative values.\<close>

fun string_of_nat :: "nat \<Rightarrow> string" where
  "string_of_nat n =
     (if n < 10 then [char_of (48 + n)]
      else string_of_nat (n div 10) @ [char_of (48 + n mod 10)])"

definition string_of_int :: "int \<Rightarrow> string" where
  "string_of_int i = (if i < 0 then CHR ''-'' # string_of_nat (nat (- i)) else string_of_nat (nat i))"

fun ToString :: "jsval \<Rightarrow> string" where
  "ToString Undefined = ''undefined''"
| "ToString Null = ''null''"
| "ToString (JBool b) = (if b then ''true'' else ''false'')"
| "ToString (JNum NaN) = ''NaN''"
| "ToString (JNum (Num n)) = string_of_int n"
| "ToString (JStr s) = s"
| "ToString (JObj t) = t"

text \<open>
  \<open>Number(s)\<close> for a string: surrounding white space is dropped; the empty string is 0;
  an optional sign followed by decimal digits is that integer; every other string of the
  integer model is \<open>NaN\<close>. (Literals with a decimal point, an exponent or a radix prefix
  denote numbers in JavaScript too; those belong to the part of the number type that is
  not modelled.) The statements about \<open>setData\<close>, \<open>removeRow\<close> and \<open>updateRow\<close> below
  speak of the result of \<open>ToNumber\<close> and do not depend on how a string is read.
\<close>

definition is_digit :: "char \<Rightarrow> bool" where
  "is_digit c = (48 \<le> (of_char c :: nat) \<and> (of_char c :: nat) \<le> 57)"

fun parse_digits :: "string \<Rightarrow> nat \<Rightarrow> nat option" where
  "parse_digits [] acc = Some acc"
| "parse_digits (c # cs) acc =
     (if is_digit c then parse_digits cs (10 * acc + (of_char c - 48)) else None)"

definition StringToNumber :: "string \<Rightarrow> jsnum" where
  "StringToNumber s =
     (case trim s of
        [] \<Rightarrow> Num 0
      | c # cs \<Rightarrow>
          if c = CHR ''+'' \<and> cs \<noteq> [] then
            (case parse_digits cs 0 of None \<Rightarrow> NaN | Some n \<Rightarrow> Num (int n))
          else if c = CHR ''-'' \<and> cs \<noteq> [] then
            (case parse_digits cs 0 of None \<Rightarrow> NaN | Some n \<Rightarrow> Num (- int n))
          else
            (case parse_digits (c # cs) 0 of None \<Rightarrow> NaN | Some n \<Rightarrow> Num (int n)))"

text \<open>\<open>Number(v)\<close>. An object or function is first turned into a primitive value, which
  with the default \<open>valueOf\<close> is its text.\<close>

fun ToNumber :: "jsval \<Rightarrow> jsnum" where
  "ToNumber Undefined = NaN"
| "ToNumber Null = Num 0"
| "ToNumber (JBool b) = Num (if b then 1 else 0)"
| "ToNumber (JNum n) = n"
| "ToNumber (JStr s) = StringToNumber s"
| "ToNumber (JObj t) = StringToNumber t"

text \<open>\<open>xs.slice(start, end)\<close>: a negative index counts from the end, and both ends are
  clipped to the array.\<close>

definition js_slice :: "'a list \<Rightarrow> int \<Rightarrow> int \<Rightarrow> 'a list" where
  "js_slice xs start fin =
     (let len = int (length xs);
          k = (if start < 0 then max (len + start) 0 else min start len);
          final = (if fin < 0 then max (len + fin) 0 else min fin len)
      in take (nat (final - k)) (drop (nat k) xs))"

text \<open>
  \<open>n + 1\<close> on a double that holds the integer \<open>n\<close>, as in \<open>this.rowIdCounter++\<close>. The
  sum is exact from \<open>-2^53\<close> up to, but not including, \<open>2^53\<close>. Beyond that the exact sum
  is odd and not a double: up to \<open>2^54\<close> in absolute value the doubles are the even
  integers, \<open>n + 1\<close> lies midway between \<open>n\<close> and \<open>n + 2\<close> and is rounded to the one of
  the two that is a multiple of 4 (the even significand); from \<open>2^54\<close> on the nearest
  double is \<open>n\<close> itself. In particular \<open>2^53 + 1\<close> is \<open>2^53\<close>.
\<close>

definition increment :: "int \<Rightarrow> int" where
  "increment n =
     (if - (2 ^ 53) \<le> n \<and> n < 2 ^ 53 then n + 1
      else if n mod 4 = 0 \<or> 2 ^ 54 \<le> \<bar>n\<bar> then n
      else n + 2)"

datatype error = TypeError | RangeError

text \<open>
  \<open>Math.max(...xs)\<close> with the arguments \<open>x, xs\<close>. The spread passes every element as
  an argument of the call, and an engine accepts only so many arguments in one call; the
  bound is implementation-defined (of the order of \<open>10^5\<close>) and is the parameter
  \<open>maxArguments\<close>. Beyond it the call throws a \<open>RangeError\<close>. The examples below
  that ingest a few records are run with a bound of 65536; they come out the same with
  every bound that is not below the number of their rows.
\<close>

definition Math_max :: "nat \<Rightarrow> int \<Rightarrow> int list \<Rightarrow> error + int" where
  "Math_max maxArguments x xs =
     (if maxArguments < length (x # xs) then Inl RangeError else Inr (fold max xs x))"

section \<open>The widget state\<close>

text \<open>
  \<open>rowMap\<close> is a JavaScript \<open>Map\<close> with numeric keys: an association list in insertion
  order, where \<open>set\<close> replaces the value of a present key in place and appends an absent
  one (\<open>AList.update\<close>), and \<open>delete\<close> removes the key (\<open>AList.delete\<close>). A key is
  never \<open>NaN\<close>: \<open>setData\<close> replaces such an id by the counter.

  \<open>pagination\<close> is the optional \<open>{page, perPage}\<close> object of the options; \<open>page\<close> may
  be missing from it. \<open>thead\<close> is the header element bound by \<open>renderHeader\<close>, seen as
  its \<open>[data-search-column]\<close> controls in document order, each with its column name and
  its current value; the constructor leaves the field unset.

  Drawing the table body and footer reads the state and writes the document only, through
  the caller's \<open>template\<close>; it is not part of this model.
\<close>

record pagination =
  page :: "int option"
  perPage :: int

type_synonym header = "(string \<times> string) list"

record table =
  rowMap :: "(int \<times> row) list"
  order :: "int list"
  filteredOrder :: "int list"
  rowIdCounter :: int
  pagination :: "pagination option"
  thead :: "header option"

record options =
  idField :: "string option"

definition constructor :: "pagination option \<Rightarrow> table" where
  "constructor pg =
     \<lparr>rowMap = [], order = [], filteredOrder = [], rowIdCounter = 0, pagination = pg, thead = None\<rparr>"

definition keys :: "table \<Rightarrow> int set" where
  "keys s = fst ` set (rowMap s)"

section \<open>Pagination\<close>

text \<open>
  \<open>getTotalPages\<close>: \<open>Math.ceil(this.filteredOrder.length / this.pagination.perPage) || 1\<close>.
  Reading \<open>perPage\<close> of a missing \<open>pagination\<close> object is a \<open>TypeError\<close>. The page size
  is a positive integer; a division by 0 gives \<open>Infinity\<close> or \<open>NaN\<close> in JavaScript,
  which the integer model does not hold, so the statements below are about positive
  page sizes.
\<close>

definition getTotalPages :: "table \<Rightarrow> error + int" where
  "getTotalPages s =
     (case pagination s of
        None \<Rightarrow> Inl TypeError
      | Some p \<Rightarrow>
          (let c = \<lceil>real (length (filteredOrder s)) / real_of_int (perPage p)\<rceil>
           in Inr (if c = 0 then 1 else c)))"

text \<open>\<open>setPage\<close>: \<open>this.pagination.page = Math.max(1, Math.min(page, total))\<close>, then a
  redraw.\<close>

definition setPage :: "int \<Rightarrow> table \<Rightarrow> (error + unit) \<times> table" where
  "setPage n s =
     (case getTotalPages s of
        Inl e \<Rightarrow> (Inl e, s)
      | Inr totalPages \<Rightarrow>
          (case pagination s of
             None \<Rightarrow> (Inl TypeError, s)
           | Some p \<Rightarrow> (Inr (), s\<lparr>pagination := Some (p\<lparr>page := Some (max 1 (min n totalPages))\<rparr>)\<rparr>)))"

text \<open>\<open>getPaginatedOrder\<close>: \<open>page\<close> defaults to 1 when the object has none.\<close>

definition getPaginatedOrder :: "table \<Rightarrow> error + int list" where
  "getPaginatedOrder s =
     (case pagination s of
        None \<Rightarrow> Inl TypeError
      | Some p \<Rightarrow>
          (let pg = (case page p of None \<Rightarrow> 1 | Some k \<Rightarrow> k);
               start = (pg - 1) * perPage p
           in Inr (js_slice (filteredOrder s) start (start + perPage p))))"

section \<open>The filter engine\<close>

text \<open>
  A filter entry is \<open>{column, value, mode}\<close>; all three are strings (the value of a
  header control, and the value of the mode switch or \<open>"AND"\<close>).
\<close>

record filterEntry =
  column :: string
  val :: string
  mode :: string

text \<open>The search words of one entry:
  \<open>String(value).toLowerCase().split(',').map(w => w.trim()).filter(Boolean)\<close>.\<close>

definition words :: "string \<Rightarrow> string list" where
  "words v = filter (\<lambda>w. w \<noteq> []) (map trim (split_comma (toLowerCase v)))"

text \<open>\<open>words.some(word => String(row[column] ?? '').toLowerCase().includes(word))\<close>.\<close>

definition matchEntry :: "row \<Rightarrow> filterEntry \<Rightarrow> bool" where
  "matchEntry r f =
     list_ex (\<lambda>word. js_includes (toLowerCase (ToString (nullish (getProp r (column f)) (JStr [])))) word)
       (words (val f))"

record conditions =
  andConditions :: "bool list"
  orConditions :: "bool list"
  notConditions :: "bool list"

text \<open>One turn of the loop over the filters: an entry with an empty value is skipped,
  the others push their match onto the list of their mode.\<close>

definition filterStep :: "row \<Rightarrow> filterEntry \<Rightarrow> conditions \<Rightarrow> conditions" where
  "filterStep r f c =
     (if val f = [] then c
      else
        (let match = matchEntry r f in
         if mode f = ''AND'' then c\<lparr>andConditions := andConditions c @ [match]\<rparr>
         else if mode f = ''OR'' then c\<lparr>orConditions := orConditions c @ [match]\<rparr>
         else if mode f = ''NOT'' then c\<lparr>notConditions := notConditions c @ [\<not> match]\<rparr>
         else c))"

definition rowPasses :: "row \<Rightarrow> filterEntry list \<Rightarrow> bool" where
  "rowPasses r filters =
     (let c = fold (filterStep r) filters
                \<lparr>andConditions = [], orConditions = [], notConditions = []\<rparr>;
          andOk = (if andConditions c \<noteq> [] then list_all id (andConditions c) else True);
          orOk = (if orConditions c \<noteq> [] then list_ex id (orConditions c) else True);
          notOk = (if notConditions c \<noteq> [] then list_all id (notConditions c) else True)
      in andOk \<and> orOk \<and> notOk)"

text \<open>\<open>filterTable\<close>: the new \<open>filteredOrder\<close> is \<open>order\<close> filtered by the predicate;
  with pagination the page is set to 1; the table is redrawn and the filtered ids are
  returned.\<close>

definition filterTable :: "filterEntry list \<Rightarrow> table \<Rightarrow> int list \<times> table" where
  "filterTable filters s =
     (let s1 = s\<lparr>filteredOrder :=
                  filter (\<lambda>i. case map_of (rowMap s) i of
                                 None \<Rightarrow> False
                               | Some r \<Rightarrow> rowPasses r filters) (order s)\<rparr>;
          s2 = (case pagination s1 of None \<Rightarrow> s1 | Some p \<Rightarrow> snd (setPage 1 s1))
      in (filteredOrder s2, s2))"

text \<open>\<open>resetFilter\<close>: \<open>filteredOrder\<close> becomes a copy of \<open>order\<close>; then the search
  controls of \<open>this.thead\<close> are cleared, which is a \<open>TypeError\<close> when no header was
  bound; then the table is redrawn.\<close>

definition resetFilter :: "table \<Rightarrow> (error + unit) \<times> table" where
  "resetFilter s =
     (let s1 = s\<lparr>filteredOrder := order s\<rparr> in
      case thead s1 of
        None \<Rightarrow> (Inl TypeError, s1)
      | Some h \<Rightarrow> (Inr (), s1\<lparr>thead := Some (map (\<lambda>(c, v). (c, [])) h)\<rparr>))"

section \<open>The row store\<close>

text \<open>The property name read by \<open>row[this.options.idField]\<close>; an option that is not set
  reads the property called \<open>undefined\<close>.\<close>

definition idKey :: "options \<Rightarrow> string" where
  "idKey opts = (case idField opts of None \<Rightarrow> ''undefined'' | Some k \<Rightarrow> k)"

text \<open>\<open>let id = Number(row.id || row[this.options.idField]); if (!id) { this.rowIdCounter++;
  id = this.rowIdCounter }\<close>: the id and the state with the counter.\<close>

definition resolveId :: "options \<Rightarrow> row \<Rightarrow> table \<Rightarrow> int \<times> table" where
  "resolveId opts r s =
     (case ToNumber (js_or (getProp r ''id'') (getProp r (idKey opts))) of
        NaN \<Rightarrow>
          (increment (rowIdCounter s), s\<lparr>rowIdCounter := increment (rowIdCounter s)\<rparr>)
      | Num k \<Rightarrow>
          if k = 0 then
            (increment (rowIdCounter s), s\<lparr>rowIdCounter := increment (rowIdCounter s)\<rparr>)
          else (k, s))"

text \<open>The body of the loop of \<open>setData\<close> for one record.\<close>

definition ingest :: "options \<Rightarrow> row \<Rightarrow> table \<Rightarrow> table" where
  "ingest opts r s =
     (case resolveId opts r s of (i, s1) \<Rightarrow>
        (let row = r(''id'' \<mapsto> JNum (Num i)) in
         case map_of (rowMap s1) i of
           Some old \<Rightarrow> s1\<lparr>rowMap := AList.update i (old ++ row) (rowMap s1)\<rparr>
         | None \<Rightarrow>
             s1\<lparr>rowMap := AList.update i row (rowMap s1),
                order := (if i \<in> set (order s1) then order s1 else order s1 @ [i]),
                filteredOrder :=
                  (if i \<in> set (filteredOrder s1) then filteredOrder s1
                   else filteredOrder s1 @ [i])\<rparr>))"

text \<open>
  \<open>setData\<close>: the loop over the records, the reset of \<open>filteredOrder\<close> unless the filters
  are kept, the redraw, and the counter: \<open>Math.max(...this.rowMap.keys())\<close> for a map that
  is not empty, 0 otherwise. When \<open>Math.max\<close> throws, the rows are stored already and the
  counter keeps the value that the loop left.
\<close>

definition setData ::
  "nat \<Rightarrow> options \<Rightarrow> row list \<Rightarrow> bool \<Rightarrow> table \<Rightarrow> (error + unit) \<times> table" where
  "setData maxArguments opts rows keepFilters s =
     (let s1 = fold (ingest opts) rows s;
          s2 = (if \<not> keepFilters then s1\<lparr>filteredOrder := order s1\<rparr> else s1)
      in case map fst (rowMap s2) of
           [] \<Rightarrow> (Inr (), s2\<lparr>rowIdCounter := 0\<rparr>)
         | k # ks \<Rightarrow>
             (case Math_max maxArguments k ks of
                Inl e \<Rightarrow> (Inl e, s2)
              | Inr m \<Rightarrow> (Inr (), s2\<lparr>rowIdCounter := m\<rparr>)))"

text \<open>\<open>removeRow\<close> and \<open>updateRow\<close> start with \<open>id = Number(id)\<close>; \<open>NaN\<close> is not a
  key of the map. The element of the row in the document is outside the model.\<close>

definition removeRow :: "jsval \<Rightarrow> table \<Rightarrow> bool \<times> table" where
  "removeRow idv s =
     (case ToNumber idv of
        NaN \<Rightarrow> (False, s)
      | Num k \<Rightarrow>
          (case map_of (rowMap s) k of
             None \<Rightarrow> (False, s)
           | Some r \<Rightarrow>
               (True, s\<lparr>rowMap := AList.delete k (rowMap s),
                        order := filter (\<lambda>x. x \<noteq> k) (order s),
                        filteredOrder := filter (\<lambda>x. x \<noteq> k) (filteredOrder s)\<rparr>)))"

definition updateRow :: "jsval \<Rightarrow> row \<Rightarrow> bool \<Rightarrow> table \<Rightarrow> bool \<times> table" where
  "updateRow idv newData updateElement s =
     (case ToNumber idv of
        NaN \<Rightarrow> (False, s)
      | Num k \<Rightarrow>
          (case map_of (rowMap s) k of
             None \<Rightarrow> (False, s)
           | Some oldData \<Rightarrow>
               (True, s\<lparr>rowMap :=
                          AList.update k ((oldData ++ newData)(''id'' \<mapsto> JNum (Num k))) (rowMap s)\<rparr>)))"

section \<open>The specification's notions\<close>

text \<open>
  The invariant of the row store, in the words of the data model: \<open>order\<close> and
  \<open>filteredOrder\<close> hold keys of the row map only, neither holds an id twice, and
  \<open>filteredOrder\<close> is a subsequence of \<open>order\<close>.
\<close>

definition invariant :: "table \<Rightarrow> bool" where
  "invariant s =
     (set (order s) \<subseteq> keys s \<and> set (filteredOrder s) \<subseteq> keys s \<and>
      subseq (filteredOrder s) (order s) \<and> distinct (order s) \<and> distinct (filteredOrder s))"








section \<open>Example data\<close>

text \<open>A table with three rows, of which the first and the third pass the current filter,
  shown one row per page, on page 2.\<close>

definition example_table :: table where
  "example_table =
     \<lparr>rowMap =
        [(1, [''id'' \<mapsto> JNum (Num 1), ''name'' \<mapsto> JStr ''Alice'', ''color'' \<mapsto> JStr ''Red'']),
         (2, [''id'' \<mapsto> JNum (Num 2), ''name'' \<mapsto> JStr ''Bob'', ''color'' \<mapsto> JStr ''dark blue'']),
         (3, [''id'' \<mapsto> JNum (Num 3), ''name'' \<mapsto> JStr ''Carol'', ''color'' \<mapsto> JStr ''Green''])],
      order = [1, 2, 3], filteredOrder = [1, 3], rowIdCounter = 3,
      pagination = Some \<lparr>page = Some 2, perPage = 1\<rparr>, thead = None\<rparr>"

text \<open>The records \<open>{id: 1}\<close>, ..., \<open>{id: n}\<close>.\<close>

definition numbered_rows :: "nat \<Rightarrow> row list" where
  "numbered_rows n = map (\<lambda>i. [''id'' \<mapsto> JNum (Num (int i))]) [1..<Suc n]"

section \<open>Auxiliary facts\<close>
















lemma setPage_keeps:
  "rowMap (snd (setPage n s)) = rowMap s \<and> order (snd (setPage n s)) = order s \<and>
   filteredOrder (snd (setPage n s)) = filteredOrder s \<and>
   rowIdCounter (snd (setPage n s)) = rowIdCounter s \<and> thead (snd (setPage n s)) = thead s"
  by (simp add: setPage_def split: sum.splits option.splits)

lemma filterTable_fields:
  "filteredOrder (snd (filterTable filters s)) =
     filter (\<lambda>i. case map_of (rowMap s) i of None \<Rightarrow> False | Some r \<Rightarrow> rowPasses r filters) (order s)
   \<and> fst (filterTable filters s) = filteredOrder (snd (filterTable filters s))
   \<and> rowMap (snd (filterTable filters s)) = rowMap s
   \<and> order (snd (filterTable filters s)) = order s
   \<and> rowIdCounter (snd (filterTable filters s)) = rowIdCounter s
   \<and> thead (snd (filterTable filters s)) = thead s"
  by (simp add: filterTable_def Let_def setPage_keeps split: option.splits)

lemma keys_has: "(map_of (rowMap s) i = None) = (i \<notin> keys s)"
  by (simp add: keys_def map_of_eq_None_iff)

lemma resolveId_fields:
  assumes "resolveId opts r s = (i, s1)"
  shows "rowMap s1 = rowMap s \<and> order s1 = order s \<and> filteredOrder s1 = filteredOrder s \<and>
         pagination s1 = pagination s \<and> thead s1 = thead s \<and> keys s1 = keys s"
  using assms by (auto simp: resolveId_def keys_def split: jsnum.splits if_splits)

lemma ingest_present:
  assumes "resolveId opts r s = (i, s1)" and "map_of (rowMap s) i = Some old"
  shows "ingest opts r s =
           s1\<lparr>rowMap := AList.update i (old ++ r(''id'' \<mapsto> JNum (Num i))) (rowMap s)\<rparr>"
  using assms resolveId_fields[OF assms(1)] by (simp add: ingest_def Let_def)

lemma ingest_absent:
  assumes "resolveId opts r s = (i, s1)" and "map_of (rowMap s) i = None"
  shows "ingest opts r s =
           s1\<lparr>rowMap := AList.update i (r(''id'' \<mapsto> JNum (Num i))) (rowMap s),
              order := (if i \<in> set (order s) then order s else order s @ [i]),
              filteredOrder := (if i \<in> set (filteredOrder s) then filteredOrder s
                                else filteredOrder s @ [i])\<rparr>"
  using assms resolveId_fields[OF assms(1)] by (simp add: ingest_def Let_def)

lemma invariant_ingest:
  assumes "invariant s"
  shows "invariant (ingest opts r s)"
proof -
  obtain i s1 where rs: "resolveId opts r s = (i, s1)" by (cases "resolveId opts r s")
  note f = resolveId_fields[OF rs]
  show ?thesis
  proof (cases "map_of (rowMap s) i")
    case None
    then have nk: "i \<notin> keys s" by (simp add: keys_has)
    with assms have ni: "i \<notin> set (order s)" "i \<notin> set (filteredOrder s)"
      by (auto simp: invariant_def)
    have "subseq (filteredOrder s @ [i]) (order s @ [i])"
      using assms by (auto simp: invariant_def intro: list_emb_append_mono)
    then show ?thesis
      using assms ni f unfolding ingest_absent[OF rs None]
      by (auto simp: invariant_def keys_def dom_update)
  next
    case (Some old)
    show ?thesis
      using assms f unfolding ingest_present[OF rs Some]
      by (auto simp: invariant_def keys_def dom_update)
  qed
qed

lemma invariant_constructor: "invariant (constructor pg)"
  by (simp add: invariant_def constructor_def keys_def)

lemma resetFilter_with_header:
  "thead s = Some h \<Longrightarrow>
   resetFilter s =
     (Inr (), s\<lparr>filteredOrder := order s, thead := Some (map (\<lambda>(c, v). (c, [])) h)\<rparr>)"
  by (simp add: resetFilter_def Let_def)

lemma resetFilter_without_header:
  "thead s = None \<Longrightarrow> resetFilter s = (Inl TypeError, s\<lparr>filteredOrder := order s\<rparr>)"
  by (simp add: resetFilter_def Let_def)

lemma invariant_fold_ingest: "invariant s \<Longrightarrow> invariant (fold (ingest opts) rows s)"
  by (induction rows arbitrary: s) (simp_all add: invariant_ingest)

lemma setData_fields:
  "rowMap (snd (setData maxArguments opts rows kf s)) = rowMap (fold (ingest opts) rows s) \<and>
   order (snd (setData maxArguments opts rows kf s)) = order (fold (ingest opts) rows s) \<and>
   filteredOrder (snd (setData maxArguments opts rows kf s)) =
     (if kf then filteredOrder (fold (ingest opts) rows s) else order (fold (ingest opts) rows s)) \<and>
   keys (snd (setData maxArguments opts rows kf s)) = keys (fold (ingest opts) rows s) \<and>
   pagination (snd (setData maxArguments opts rows kf s)) = pagination (fold (ingest opts) rows s) \<and>
   thead (snd (setData maxArguments opts rows kf s)) = thead (fold (ingest opts) rows s)"
  by (simp add: setData_def Let_def keys_def Math_max_def split: list.splits)

lemma invariant_setData:
  "invariant s \<Longrightarrow> invariant (snd (setData maxArguments opts rows keepFilters s))"
proof -
  assume "invariant s"
  then have "invariant (fold (ingest opts) rows s)" by (rule invariant_fold_ingest)
  then show ?thesis
    unfolding invariant_def by (simp add: setData_fields)
qed

lemma keys_delete: "fst ` set (AList.delete k al) = fst ` set al - {k}"
proof -
  have "set (map fst (AList.delete k al)) = set (map fst al) - {k}"
    by (simp add: delete_keys)
  then show ?thesis by simp
qed

lemma invariant_removeRow: "invariant s \<Longrightarrow> invariant (snd (removeRow idv s))"
  by (auto simp: removeRow_def invariant_def keys_def keys_delete
           split: jsnum.splits option.splits)

lemma invariant_updateRow: "invariant s \<Longrightarrow> invariant (snd (updateRow idv newData upd s))"
  by (auto simp: updateRow_def invariant_def keys_def dom_update
           split: jsnum.splits option.splits)

lemma invariant_filterTable: "invariant s \<Longrightarrow> invariant (snd (filterTable filters s))"
proof -
  assume i: "invariant s"
  let ?s' = "snd (filterTable filters s)"
  note f = filterTable_fields[of filters s]
  have k: "keys ?s' = keys s" using f by (simp add: keys_def)
  show ?thesis
    using i unfolding invariant_def k by (auto simp: f)
qed

lemma invariant_resetFilter: "invariant s \<Longrightarrow> invariant (snd (resetFilter s))"
  by (auto simp: resetFilter_def Let_def invariant_def keys_def split: option.splits)

lemma ceil_pos: "0 < p \<Longrightarrow> 0 \<le> \<lceil>real n / real_of_int p\<rceil>"
proof -
  assume "0 < p"
  then have "0 \<le> real n / real_of_int p" by simp
  then have "\<lceil>0::real\<rceil> \<le> \<lceil>real n / real_of_int p\<rceil>" by (rule ceiling_mono)
  then show ?thesis by simp
qed

lemma getTotalPages_max:
  assumes "pagination s = Some p" and "0 < perPage p"
  shows "getTotalPages s =
           Inr (max 1 \<lceil>real (length (filteredOrder s)) / real_of_int (perPage p)\<rceil>)"
proof -
  define c where "c = \<lceil>real (length (filteredOrder s)) / real_of_int (perPage p)\<rceil>"
  have c0: "0 \<le> c" unfolding c_def using assms(2) by (rule ceil_pos)
  have g: "getTotalPages s = Inr (if c = 0 then 1 else c)"
    using assms(1) by (simp add: getTotalPages_def c_def)
  have m: "(if c = 0 then 1 else c) = max 1 c" using c0 by auto
  show ?thesis using g m unfolding c_def by simp
qed

lemma length_js_slice: "a \<le> b \<Longrightarrow> length (js_slice xs a b) \<le> nat (b - a)"
  by (auto simp: js_slice_def Let_def min_def max_def)

lemma js_slice_take_drop:
  "0 \<le> a \<Longrightarrow> a \<le> b \<Longrightarrow> js_slice xs a b = take (nat (b - a)) (drop (nat a) xs)"
proof -
  assume a: "0 \<le> a" "a \<le> b"
  show ?thesis
  proof (cases "a \<le> int (length xs)")
    case True
    then have "js_slice xs a b = take (nat (min b (int (length xs)) - a)) (drop (nat a) xs)"
      using a by (simp add: js_slice_def Let_def min_def)
    also have "\<dots> = take (nat (b - a)) (drop (nat a) xs)"
      using a True by (cases "b \<le> int (length xs)") (simp_all add: min_def)
    finally show ?thesis .
  next
    case False
    then show ?thesis using a by (simp add: js_slice_def Let_def min_def)
  qed
qed

lemma finite_keys: "finite (keys s)"
  by (simp add: keys_def)

lemma setData_counter_Max:
  assumes "fst (setData maxArguments opts rows kf s) = Inr ()"
  shows "rowIdCounter (snd (setData maxArguments opts rows kf s)) =
     (if keys (snd (setData maxArguments opts rows kf s)) = {} then 0
      else Max (keys (snd (setData maxArguments opts rows kf s))))"
proof -
  let ?m = "rowMap (fold (ingest opts) rows s)"
  have k: "keys (snd (setData maxArguments opts rows kf s)) = set (map fst ?m)"
    by (simp add: setData_fields keys_def)
  show ?thesis
  proof (cases "map fst ?m")
    case Nil
    then show ?thesis unfolding k by (simp add: setData_def Let_def)
  next
    case (Cons x xs)
    have m: "Max (set (x # xs)) = fold max xs x" by (rule Max.set_eq_fold)
    from assms Cons have "rowIdCounter (snd (setData maxArguments opts rows kf s)) = fold max xs x"
      by (simp add: setData_def Let_def Math_max_def split: if_splits)
    then show ?thesis unfolding k Cons using m by simp
  qed
qed

lemma increment_exact: "- (2 ^ 53) \<le> n \<Longrightarrow> n < 2 ^ 53 \<Longrightarrow> increment n = n + 1"
  by (simp add: increment_def)

lemma increment_pos: "0 \<le> n \<Longrightarrow> 0 < increment n"
  by (simp add: increment_def)

lemma resolveId_no_id:
  assumes "getProp r ''id'' = Undefined" and "getProp r (idKey opts) = Undefined"
  shows "resolveId opts r s =
           (increment (rowIdCounter s), s\<lparr>rowIdCounter := increment (rowIdCounter s)\<rparr>)"
  using assms by (simp add: resolveId_def js_or_def)

lemma ingest_no_id_fresh:
  assumes "getProp r ''id'' = Undefined" and "getProp r (idKey opts) = Undefined"
    and "map_of (rowMap s) (increment (rowIdCounter s)) = None"
    and "increment (rowIdCounter s) \<notin> set (order s)"
    and "increment (rowIdCounter s) \<notin> set (filteredOrder s)"
  shows "ingest opts r s =
           s\<lparr>rowIdCounter := increment (rowIdCounter s),
             rowMap := AList.update (increment (rowIdCounter s))
                         (r(''id'' \<mapsto> JNum (Num (increment (rowIdCounter s))))) (rowMap s),
             order := order s @ [increment (rowIdCounter s)],
             filteredOrder := filteredOrder s @ [increment (rowIdCounter s)]\<rparr>"
  using assms(3-5)
  by (simp add: ingest_absent[OF resolveId_no_id[OF assms(1,2)] assms(3)])

lemma empty_store:
  assumes "rowMap s = []" and "invariant s"
  shows "order s = [] \<and> filteredOrder s = []"
  using assms by (simp add: invariant_def keys_def)

lemma auto_ids_1_2:
  assumes "getProp r1 ''id'' = Undefined" and "getProp r1 (idKey opts) = Undefined"
    and "getProp r2 ''id'' = Undefined" and "getProp r2 (idKey opts) = Undefined"
    and "rowMap s = []" and "invariant s" and "rowIdCounter s = 0"
  shows "rowMap (fold (ingest opts) [r1, r2] s) =
           [(1, r1(''id'' \<mapsto> JNum (Num 1))), (2, r2(''id'' \<mapsto> JNum (Num 2)))]"
  using assms(5,7) empty_store[OF assms(5,6)]
  by (simp add: ingest_no_id_fresh[OF assms(1,2)] ingest_no_id_fresh[OF assms(3,4)]
        increment_def)

lemma update_absent: "k \<notin> fst ` set al \<Longrightarrow> AList.update k v al = al @ [(k, v)]"
  by (induction al) auto

lemma ingest_numbered:
  assumes "k \<noteq> 0" and "k \<notin> keys s" and "k \<notin> set (order s)" and "k \<notin> set (filteredOrder s)"
  shows "ingest opts [''id'' \<mapsto> JNum (Num k)] s =
           s\<lparr>rowMap := rowMap s @ [(k, [''id'' \<mapsto> JNum (Num k)])],
             order := order s @ [k], filteredOrder := filteredOrder s @ [k]\<rparr>"
proof -
  have r: "resolveId opts [''id'' \<mapsto> JNum (Num k)] s = (k, s)"
    using assms(1) by (simp add: resolveId_def getProp_def js_or_def)
  have n: "map_of (rowMap s) k = None" using assms(2) by (simp add: keys_has)
  have u: "AList.update k [''id'' \<mapsto> JNum (Num k)] (rowMap s) =
             rowMap s @ [(k, [''id'' \<mapsto> JNum (Num k)])]"
    using assms(2) by (simp add: update_absent keys_def)
  show ?thesis
    using assms(3,4) by (simp add: ingest_absent[OF r n] u)
qed

lemma fold_numbered_rows:
  "fold (ingest opts) (numbered_rows n) (constructor pg) =
     (constructor pg)\<lparr>rowMap := map (\<lambda>i. (int i, [''id'' \<mapsto> JNum (Num (int i))])) [1..<Suc n],
                      order := map int [1..<Suc n], filteredOrder := map int [1..<Suc n]\<rparr>"
proof (induction n)
  case 0
  show ?case by (simp add: numbered_rows_def constructor_def)
next
  case (Suc n)
  let ?s = "(constructor pg)\<lparr>rowMap := map (\<lambda>i. (int i, [''id'' \<mapsto> JNum (Num (int i))])) [1..<Suc n],
                      order := map int [1..<Suc n], filteredOrder := map int [1..<Suc n]\<rparr>"
  have u: "[1..<Suc (Suc n)] = [1..<Suc n] @ [Suc n]" by simp
  have a: "numbered_rows (Suc n) = numbered_rows n @ [[''id'' \<mapsto> JNum (Num (int (Suc n)))]]"
    unfolding numbered_rows_def u by simp
  have k: "int (Suc n) \<notin> keys ?s"
    by (auto simp: keys_def)
  have o: "int (Suc n) \<notin> set (order ?s)" "int (Suc n) \<notin> set (filteredOrder ?s)"
    by auto
  have z: "int (Suc n) \<noteq> 0" by simp
  have "fold (ingest opts) (numbered_rows (Suc n)) (constructor pg) =
          ingest opts [''id'' \<mapsto> JNum (Num (int (Suc n)))] ?s"
    unfolding a fold_append comp_apply Suc.IH by simp
  also have "\<dots> = ?s\<lparr>rowMap := rowMap ?s @ [(int (Suc n), [''id'' \<mapsto> JNum (Num (int (Suc n)))])],
                     order := order ?s @ [int (Suc n)],
                     filteredOrder := filteredOrder ?s @ [int (Suc n)]\<rparr>"
    by (rule ingest_numbered[OF z k o])
  also have "\<dots> = (constructor pg)\<lparr>rowMap :=
                        map (\<lambda>i. (int i, [''id'' \<mapsto> JNum (Num (int i))])) [1..<Suc (Suc n)],
                      order := map int [1..<Suc (Suc n)],
                      filteredOrder := map int [1..<Suc (Suc n)]\<rparr>"
    unfolding u by simp
  finally show ?case .
qed

lemma resolveId_in_keys:
  "fst (resolveId opts r s) \<in> keys (ingest opts r s)"
proof -
  obtain i s1 where rs: "resolveId opts r s = (i, s1)" by (cases "resolveId opts r s")
  show ?thesis
    by (cases "map_of (rowMap s) i")
       (simp_all add: rs ingest_absent[OF rs] ingest_present[OF rs] keys_def dom_update)
qed

lemma resolveId_cases:
  "(truthy (getProp r ''id'') \<and> ToNumber (getProp r ''id'') = Num k \<and> k \<noteq> 0 \<longrightarrow>
      fst (resolveId opts r s) = k) \<and>
   (\<not> truthy (getProp r ''id'') \<and> ToNumber (getProp r (idKey opts)) = Num k \<and> k \<noteq> 0 \<longrightarrow>
      fst (resolveId opts r s) = k) \<and>
   (truthy (getProp r ''id'') \<and>
      (ToNumber (getProp r ''id'') = NaN \<or> ToNumber (getProp r ''id'') = Num 0) \<longrightarrow>
      fst (resolveId opts r s) = increment (rowIdCounter s)) \<and>
   (\<not> truthy (getProp r ''id'') \<and>
      (ToNumber (getProp r (idKey opts)) = NaN \<or> ToNumber (getProp r (idKey opts)) = Num 0) \<longrightarrow>
      fst (resolveId opts r s) = increment (rowIdCounter s))"
  by (auto simp: resolveId_def js_or_def)

lemma ingest_nonneg:
  assumes "0 \<le> rowIdCounter s" and "0 \<notin> keys s"
  shows "0 \<le> rowIdCounter (ingest opts r s) \<and> 0 \<notin> keys (ingest opts r s)"
proof -
  obtain i s1 where rs: "resolveId opts r s = (i, s1)" by (cases "resolveId opts r s")
  have p: "0 < increment (rowIdCounter s)" using assms(1) by (rule increment_pos)
  have i: "i \<noteq> 0" and c: "0 \<le> rowIdCounter s1"
    using rs assms(1) p by (auto simp: resolveId_def split: jsnum.splits if_splits)
  show ?thesis
    using i c assms(2)
    by (cases "map_of (rowMap s) i")
       (auto simp: ingest_absent[OF rs] ingest_present[OF rs] keys_def dom_update)
qed

lemma fold_ingest_nonneg:
  "0 \<le> rowIdCounter s \<Longrightarrow> 0 \<notin> keys s \<Longrightarrow>
   0 \<le> rowIdCounter (fold (ingest opts) rows s) \<and> 0 \<notin> keys (fold (ingest opts) rows s)"
  by (induction rows arbitrary: s) (simp_all add: ingest_nonneg)

section \<open>The claims\<close>




text \<open>
  Claim C2 fails on the code. \<open>idField\<close> is documented as the key of a record that
  holds the id of the row, but \<open>setData\<close> reads the literal \<open>id\<close> field first: with
  \<open>idField = 'keyword_id'\<close>, the record \<open>{id: 5, keyword_id: 7}\<close> is stored under the
  id 5, and 7 is not a key.
\<close>

theorem literal_id_shadows_configured_field:
  "order (snd (setData 65536 \<lparr>idField = Some ''keyword_id''\<rparr>
            [[''id'' \<mapsto> JNum (Num 5), ''keyword_id'' \<mapsto> JNum (Num 7)]] False (constructor None))) = [5] \<and>
   keys (snd (setData 65536 \<lparr>idField = Some ''keyword_id''\<rparr>
            [[''id'' \<mapsto> JNum (Num 5), ''keyword_id'' \<mapsto> JNum (Num 7)]] False (constructor None))) = {5}"
  by (simp add: setData_def Let_def ingest_def resolveId_def js_or_def getProp_def idKey_def
        constructor_def keys_def Math_max_def)

text \<open>
  Claim C3. From a state that satisfies the invariant of the row store, each of
  \<open>setData\<close>, \<open>removeRow\<close>, \<open>updateRow\<close>, \<open>filterTable\<close> and \<open>resetFilter\<close> leads
  to a state that satisfies it: every id in \<open>order\<close> and in \<open>filteredOrder\<close> is a key of
  the row map, \<open>filteredOrder\<close> is a subsequence of \<open>order\<close>, and neither holds an id
  twice. For \<open>setData\<close> and \<open>resetFilter\<close> this is the state that the call leaves
  behind, whether it returns or throws.
\<close>

theorem invariant_preserved:
  assumes "invariant s"
  shows "invariant (snd (setData maxArguments opts rows keepFilters s)) \<and>
         invariant (snd (removeRow idv s)) \<and>
         invariant (snd (updateRow idv newData updateElement s)) \<and>
         invariant (snd (filterTable filters s)) \<and>
         invariant (snd (resetFilter s))"
  using assms
  by (simp add: invariant_setData invariant_removeRow invariant_updateRow
        invariant_filterTable invariant_resetFilter)

theorem invariant_preserved_witness:
  "invariant example_table \<and>
   invariant (snd (setData 65536 \<lparr>idField = None\<rparr> [[''name'' \<mapsto> JStr ''Dave'']] True
                     example_table)) \<and>
   invariant (snd (removeRow (JStr ''3'') example_table)) \<and>
   invariant (snd (updateRow (JStr ''3'') [''color'' \<mapsto> JStr ''pink''] False example_table)) \<and>
   invariant (snd (filterTable [\<lparr>column = ''color'', val = ''e'', mode = ''NOT''\<rparr>] example_table)) \<and>
   invariant (snd (resetFilter example_table))"
proof -
  have "invariant example_table"
    by (simp add: invariant_def example_table_def keys_def)
  then show ?thesis
    using invariant_preserved[of example_table 65536 "\<lparr>idField = None\<rparr>"
            "[[''name'' \<mapsto> JStr ''Dave'']]" True
            "JStr ''3''" "[''color'' \<mapsto> JStr ''pink'']" False
            "[\<lparr>column = ''color'', val = ''e'', mode = ''NOT''\<rparr>]"]
    by simp
qed



text \<open>
  Claim C5. When \<open>Number(id)\<close> is not a key of the row map (it is \<open>NaN\<close>, or a
  number that the map does not hold), \<open>removeRow\<close> and \<open>updateRow\<close> return \<open>false\<close> and
  the state is unchanged. When it is a key \<open>k\<close>, \<open>removeRow\<close> returns \<open>true\<close>, the row
  map no longer has \<open>k\<close> and keeps every other row, and \<open>k\<close> is filtered out of \<open>order\<close>
  and \<open>filteredOrder\<close>.
\<close>

theorem removeRow_updateRow_unknown_known:
  "((ToNumber idv = NaN \<or> (\<exists>k. ToNumber idv = Num k \<and> k \<notin> keys s)) \<longrightarrow>
      removeRow idv s = (False, s) \<and> updateRow idv newData updateElement s = (False, s)) \<and>
   (\<forall>k. ToNumber idv = Num k \<and> k \<in> keys s \<longrightarrow>
      removeRow idv s =
        (True, s\<lparr>rowMap := AList.delete k (rowMap s),
                 order := filter (\<lambda>x. x \<noteq> k) (order s),
                 filteredOrder := filter (\<lambda>x. x \<noteq> k) (filteredOrder s)\<rparr>) \<and>
      map_of (rowMap (snd (removeRow idv s))) k = None \<and>
      (\<forall>j. j \<noteq> k \<longrightarrow> map_of (rowMap (snd (removeRow idv s))) j = map_of (rowMap s) j) \<and>
      keys (snd (removeRow idv s)) = keys s - {k} \<and>
      k \<notin> set (order (snd (removeRow idv s))) \<and>
      k \<notin> set (filteredOrder (snd (removeRow idv s))))"
proof (intro conjI impI allI)
  assume "ToNumber idv = NaN \<or> (\<exists>k. ToNumber idv = Num k \<and> k \<notin> keys s)"
  then show "removeRow idv s = (False, s)"
    by (auto simp: removeRow_def keys_has[symmetric])
next
  assume "ToNumber idv = NaN \<or> (\<exists>k. ToNumber idv = Num k \<and> k \<notin> keys s)"
  then show "updateRow idv newData updateElement s = (False, s)"
    by (auto simp: updateRow_def keys_has[symmetric])
next
  fix k
  assume a: "ToNumber idv = Num k \<and> k \<in> keys s"
  then obtain r where r: "map_of (rowMap s) k = Some r"
    using keys_has[of s k] by auto
  show e: "removeRow idv s =
        (True, s\<lparr>rowMap := AList.delete k (rowMap s),
                 order := filter (\<lambda>x. x \<noteq> k) (order s),
                 filteredOrder := filter (\<lambda>x. x \<noteq> k) (filteredOrder s)\<rparr>)"
    using a r by (simp add: removeRow_def)
  show "map_of (rowMap (snd (removeRow idv s))) k = None"
    by (simp add: e delete_conv')
  show "keys (snd (removeRow idv s)) = keys s - {k}"
    by (simp add: e keys_def keys_delete)
  show "k \<notin> set (order (snd (removeRow idv s)))" by (simp add: e)
  show "k \<notin> set (filteredOrder (snd (removeRow idv s)))" by (simp add: e)
  fix j
  assume "j \<noteq> k"
  then show "map_of (rowMap (snd (removeRow idv s))) j = map_of (rowMap s) j"
    by (simp add: e)
qed

theorem removeRow_updateRow_witness:
  "removeRow (JStr ''7'') example_table = (False, example_table) \<and>
   updateRow (JStr ''7'') [''color'' \<mapsto> JStr ''pink''] True example_table = (False, example_table) \<and>
   removeRow (JStr ''abc'') example_table = (False, example_table) \<and>
   fst (removeRow (JStr ''3'') example_table) = True \<and>
   order (snd (removeRow (JStr ''3'') example_table)) = [1, 2] \<and>
   filteredOrder (snd (removeRow (JStr ''3'') example_table)) = [1] \<and>
   keys (snd (removeRow (JStr ''3'') example_table)) = {1, 2} \<and>
   map_of (rowMap (snd (removeRow (JStr ''3'') example_table))) 1 = map_of (rowMap example_table) 1"
proof -
  have n7: "StringToNumber ''7'' = Num 7" by code_simp
  have n3: "StringToNumber ''3'' = Num 3" by code_simp
  have na: "StringToNumber ''abc'' = NaN" by code_simp
  have k: "keys example_table = {1, 2, 3}" by (auto simp: keys_def example_table_def)
  have o: "order example_table = [1, 2, 3]" "filteredOrder example_table = [1, 3]"
    by (simp_all add: example_table_def)
  have a: "removeRow (JStr ''7'') example_table = (False, example_table) \<and>
     updateRow (JStr ''7'') [''color'' \<mapsto> JStr ''pink''] True example_table = (False, example_table)"
    using removeRow_updateRow_unknown_known[of "JStr ''7''" example_table
            "[''color'' \<mapsto> JStr ''pink'']" True, THEN conjunct1]
    by (simp add: n7 k)
  have b: "removeRow (JStr ''abc'') example_table = (False, example_table)"
    using removeRow_updateRow_unknown_known[of "JStr ''abc''" example_table
            "[''color'' \<mapsto> JStr ''pink'']" True, THEN conjunct1]
    by (simp add: na)
  have c: "fst (removeRow (JStr ''3'') example_table) = True \<and>
     order (snd (removeRow (JStr ''3'') example_table)) = [1, 2] \<and>
     filteredOrder (snd (removeRow (JStr ''3'') example_table)) = [1] \<and>
     keys (snd (removeRow (JStr ''3'') example_table)) = {1, 2} \<and>
     map_of (rowMap (snd (removeRow (JStr ''3'') example_table))) 1 = map_of (rowMap example_table) 1"
    using removeRow_updateRow_unknown_known[of "JStr ''3''" example_table
            "[''color'' \<mapsto> JStr ''pink'']" True, THEN conjunct2, THEN spec, of 3]
    by (auto simp: n3 k o)
  show ?thesis using a b c by simp
qed

text \<open>
  Claim C6. With a positive page size, \<open>getTotalPages\<close> returns the ceiling of
  \<open>filteredOrder.length / perPage\<close>, and at least 1: for an empty \<open>filteredOrder\<close> it
  returns 1, and it never returns 0.
\<close>

theorem getTotalPages_ceil:
  assumes "pagination s = Some p" and "0 < perPage p"
  shows "getTotalPages s =
           Inr (max 1 \<lceil>real (length (filteredOrder s)) / real_of_int (perPage p)\<rceil>) \<and>
         (filteredOrder s = [] \<longrightarrow> getTotalPages s = Inr 1) \<and>
         getTotalPages s \<noteq> Inr 0"
proof -
  note m = getTotalPages_max[OF assms]
  have "filteredOrder s = [] \<Longrightarrow> getTotalPages s = Inr 1"
    by (simp add: m)
  moreover have "getTotalPages s \<noteq> Inr 0"
  proof -
    have "(1::int) \<le> max 1 \<lceil>real (length (filteredOrder s)) / real_of_int (perPage p)\<rceil>"
      by (rule max.cobounded1)
    then show ?thesis unfolding m by auto
  qed
  ultimately show ?thesis using m by blast
qed

theorem getTotalPages_ceil_witness:
  "getTotalPages (constructor (Some \<lparr>page = None, perPage = 10\<rparr>)) = Inr 1 \<and>
   getTotalPages example_table = Inr 2"
  using getTotalPages_ceil[of "constructor (Some \<lparr>page = None, perPage = 10\<rparr>)" "\<lparr>page = None, perPage = 10\<rparr>"]
    getTotalPages_ceil[of example_table "\<lparr>page = Some 2, perPage = 1\<rparr>"]
  by (simp add: constructor_def example_table_def)

text \<open>
  Claim C7. With pagination configured and a positive page size, \<open>setPage n\<close>
  returns without throwing and stores \<open>n\<close> clamped into \<open>[1, getTotalPages()]\<close>: 1 for
  \<open>n < 1\<close>, the total for \<open>n\<close> above the total, \<open>n\<close> otherwise. For every stored page and
  page size, \<open>getPaginatedOrder\<close> returns the slice of \<open>filteredOrder\<close> from
  \<open>(page-1)*perPage\<close> to \<open>(page-1)*perPage+perPage\<close> without throwing; it never has more
  than \<open>perPage\<close> elements, and for a page from 1 on it is the \<open>perPage\<close> elements after
  the first \<open>(page-1)*perPage\<close>, or as many as there are.
\<close>

theorem setPage_clamps_getPaginatedOrder_slices:
  assumes "pagination s = Some p"
  shows "(0 < perPage p \<longrightarrow>
            (\<exists>t. getTotalPages s = Inr t \<and> 1 \<le> t \<and>
                 setPage n s =
                   (Inr (), s\<lparr>pagination := Some (p\<lparr>page := Some (max 1 (min n t))\<rparr>)\<rparr>) \<and>
                 max 1 (min n t) = (if n < 1 then 1 else if t < n then t else n))) \<and>
         getPaginatedOrder s =
           Inr (js_slice (filteredOrder s)
                  (((case page p of None \<Rightarrow> 1 | Some k \<Rightarrow> k) - 1) * perPage p)
                  (((case page p of None \<Rightarrow> 1 | Some k \<Rightarrow> k) - 1) * perPage p + perPage p)) \<and>
         (\<forall>ids. getPaginatedOrder s = Inr ids \<and> 0 \<le> perPage p \<longrightarrow> length ids \<le> nat (perPage p)) \<and>
         (\<forall>k. page p = Some k \<and> 1 \<le> k \<and> 0 \<le> perPage p \<longrightarrow>
            getPaginatedOrder s =
              Inr (take (nat (perPage p)) (drop (nat ((k - 1) * perPage p)) (filteredOrder s))))"
proof (intro conjI impI allI)
  assume pos: "0 < perPage p"
  define t where "t = max 1 \<lceil>real (length (filteredOrder s)) / real_of_int (perPage p)\<rceil>"
  have g: "getTotalPages s = Inr t"
    unfolding t_def using assms pos by (rule getTotalPages_max)
  have t1: "1 \<le> t" by (simp add: t_def)
  have sp: "setPage n s = (Inr (), s\<lparr>pagination := Some (p\<lparr>page := Some (max 1 (min n t))\<rparr>)\<rparr>)"
    using assms g by (simp add: setPage_def)
  have cl: "max 1 (min n t) = (if n < 1 then 1 else if t < n then t else n)"
    using t1 by (auto simp: max_def min_def)
  show "\<exists>t. getTotalPages s = Inr t \<and> 1 \<le> t \<and>
            setPage n s = (Inr (), s\<lparr>pagination := Some (p\<lparr>page := Some (max 1 (min n t))\<rparr>)\<rparr>) \<and>
            max 1 (min n t) = (if n < 1 then 1 else if t < n then t else n)"
    using g t1 sp cl by blast
next
  show gp: "getPaginatedOrder s =
           Inr (js_slice (filteredOrder s)
                  (((case page p of None \<Rightarrow> 1 | Some k \<Rightarrow> k) - 1) * perPage p)
                  (((case page p of None \<Rightarrow> 1 | Some k \<Rightarrow> k) - 1) * perPage p + perPage p))"
    using assms by (simp add: getPaginatedOrder_def Let_def)
  {
    fix ids
    assume "getPaginatedOrder s = Inr ids \<and> 0 \<le> perPage p"
    then show "length ids \<le> nat (perPage p)"
      using length_js_slice[of "((case page p of None \<Rightarrow> 1 | Some k \<Rightarrow> k) - 1) * perPage p"
              "((case page p of None \<Rightarrow> 1 | Some k \<Rightarrow> k) - 1) * perPage p + perPage p"
              "filteredOrder s"]
      by (simp add: gp)
  }
  {
    fix k
    assume k: "page p = Some k \<and> 1 \<le> k \<and> 0 \<le> perPage p"
    then have "0 \<le> (k - 1) * perPage p" by simp
    then show "getPaginatedOrder s =
              Inr (take (nat (perPage p)) (drop (nat ((k - 1) * perPage p)) (filteredOrder s)))"
      using k js_slice_take_drop[of "(k - 1) * perPage p" "(k - 1) * perPage p + perPage p"
                "filteredOrder s"]
      by (simp add: gp)
  }
qed

theorem setPage_getPaginatedOrder_witness:
  "setPage 7 example_table =
     (Inr (), example_table\<lparr>pagination := Some \<lparr>page = Some 2, perPage = 1\<rparr>\<rparr>) \<and>
   setPage (- 3) example_table =
     (Inr (), example_table\<lparr>pagination := Some \<lparr>page = Some 1, perPage = 1\<rparr>\<rparr>) \<and>
   getPaginatedOrder example_table = Inr [3] \<and>
   getPaginatedOrder (example_table\<lparr>pagination := Some \<lparr>page = Some 5, perPage = 1\<rparr>\<rparr>) = Inr []"
proof -
  have g: "getTotalPages example_table = Inr 2"
    by (simp add: getTotalPages_def example_table_def)
  have p: "pagination example_table = Some \<lparr>page = Some 2, perPage = 1\<rparr>"
    "filteredOrder example_table = [1, 3]"
    by (simp_all add: example_table_def)
  have a: "setPage 7 example_table =
     (Inr (), example_table\<lparr>pagination := Some \<lparr>page = Some 2, perPage = 1\<rparr>\<rparr>)"
    using setPage_clamps_getPaginatedOrder_slices[of example_table "\<lparr>page = Some 2, perPage = 1\<rparr>" 7]
    by (auto simp: g p)
  have b: "setPage (- 3) example_table =
     (Inr (), example_table\<lparr>pagination := Some \<lparr>page = Some 1, perPage = 1\<rparr>\<rparr>)"
    using setPage_clamps_getPaginatedOrder_slices[of example_table "\<lparr>page = Some 2, perPage = 1\<rparr>" "- 3"]
    by (auto simp: g p)
  have c: "getPaginatedOrder example_table = Inr [3]"
    using setPage_clamps_getPaginatedOrder_slices[of example_table "\<lparr>page = Some 2, perPage = 1\<rparr>" 0]
    by (simp add: p js_slice_def)
  have d: "getPaginatedOrder (example_table\<lparr>pagination := Some \<lparr>page = Some 5, perPage = 1\<rparr>\<rparr>) = Inr []"
    using setPage_clamps_getPaginatedOrder_slices[of
         "example_table\<lparr>pagination := Some \<lparr>page = Some 5, perPage = 1\<rparr>\<rparr>"
         "\<lparr>page = Some 5, perPage = 1\<rparr>" 0]
    by (simp add: p js_slice_def)
  show ?thesis using a b c d by simp
qed

text \<open>
  Claim C8 fails on the code. A widget on which \<open>renderHeader\<close> was never called has
  no \<open>thead\<close>; \<open>resetFilter\<close> sets \<open>filteredOrder\<close> to \<open>order\<close> and then throws a
  \<open>TypeError\<close> on \<open>this.thead.querySelectorAll\<close>, here after one row was ingested.
\<close>

theorem resetFilter_without_header_throws:
  "resetFilter (snd (setData 65536 \<lparr>idField = None\<rparr> [[''id'' \<mapsto> JNum (Num 1)]] False
                      (constructor None))) =
     (Inl TypeError,
      \<lparr>rowMap = [(1, [''id'' \<mapsto> JNum (Num 1)])], order = [1], filteredOrder = [1],
       rowIdCounter = 1, pagination = None, thead = None\<rparr>)"
  by (simp add: resetFilter_def setData_def Let_def ingest_def resolveId_def js_or_def getProp_def
        idKey_def constructor_def Math_max_def)

text \<open>
  Claim C9 fails on the code. \<open>setData\<close> computes the counter by
  \<open>Math.max(...this.rowMap.keys())\<close>, which passes every key as an argument. When the
  records \<open>{id: 1}\<close>, ..., \<open>{id: n}\<close> are ingested into a new widget and \<open>n\<close> is more
  than the engine accepts as arguments, the call throws a \<open>RangeError\<close> after the rows
  were stored: the counter is still 0 although the greatest key is \<open>n\<close>, and the next
  record without an id gets the id 1, which is a key already.
\<close>

theorem setData_large_map_throws:
  assumes "maxArguments < n"
  shows "fst (setData maxArguments opts (numbered_rows n) keepFilters (constructor pg)) =
           Inl RangeError \<and>
         rowIdCounter (snd (setData maxArguments opts (numbered_rows n) keepFilters (constructor pg))) = 0 \<and>
         keys (snd (setData maxArguments opts (numbered_rows n) keepFilters (constructor pg))) =
           int ` {1..n} \<and>
         Max (keys (snd (setData maxArguments opts (numbered_rows n) keepFilters (constructor pg)))) =
           int n \<and>
         (getProp r ''id'' = Undefined \<and> getProp r (idKey opts) = Undefined \<longrightarrow>
            fst (resolveId opts r
                  (snd (setData maxArguments opts (numbered_rows n) keepFilters (constructor pg)))) = 1 \<and>
            1 \<in> keys (snd (setData maxArguments opts (numbered_rows n) keepFilters (constructor pg))))"
proof -
  let ?t = "setData maxArguments opts (numbered_rows n) keepFilters (constructor pg)"
  let ?s1 = "fold (ingest opts) (numbered_rows n) (constructor pg)"
  note f = fold_numbered_rows[of opts n pg]
  have n: "0 < n" using assms by simp
  have ks: "map fst (rowMap ?s1) = map int [1..<Suc n]"
    unfolding f by (simp add: comp_def del: upt_Suc)
  have l: "length (map fst (rowMap ?s1)) = n" unfolding ks by simp
  obtain x xs where xs: "map fst (rowMap ?s1) = x # xs"
    using l n by (cases "map fst (rowMap ?s1)") simp_all
  have "length (x # xs) = n" using l unfolding xs .
  then have mm: "Math_max maxArguments x xs = Inl RangeError"
    using assms by (simp add: Math_max_def)
  have k: "keys (snd ?t) = int ` {1..n}"
  proof -
    have "keys (snd ?t) = set (map fst (rowMap ?s1))"
      by (simp add: setData_fields keys_def)
    also have "\<dots> = int ` {1..n}"
      unfolding ks by (simp add: atLeastLessThanSuc_atLeastAtMost del: upt_Suc)
    finally show ?thesis .
  qed
  have t1: "fst ?t = Inl RangeError"
    unfolding setData_def Let_def using mm by (simp add: xs)
  have c: "rowIdCounter (snd ?t) = 0"
  proof -
    have "rowIdCounter (snd ?t) = rowIdCounter ?s1"
      unfolding setData_def Let_def using mm by (simp add: xs)
    also have "\<dots> = 0" unfolding f by (simp add: constructor_def)
    finally show ?thesis .
  qed
  have mx: "Max (keys (snd ?t)) = int n"
  proof -
    have "Max (int ` {1..n}) = int (Max {1..n})"
      using n by (intro mono_Max_commute[symmetric]) (auto simp: mono_def)
    moreover have "Max {1..n} = n" using n by (intro Max_eqI) auto
    ultimately show ?thesis unfolding k by simp
  qed
  have one: "1 \<in> keys (snd ?t)" unfolding k using n by force
  have r: "fst (resolveId opts r (snd ?t)) = 1"
    if "getProp r ''id'' = Undefined \<and> getProp r (idKey opts) = Undefined"
    using that c by (simp add: resolveId_no_id increment_def)
  show ?thesis using t1 c k mx one r by simp
qed

theorem setData_large_map_throws_witness:
  "fst (setData 100000 \<lparr>idField = None\<rparr> (numbered_rows 150000) False (constructor None)) =
     Inl RangeError \<and>
   rowIdCounter (snd (setData 100000 \<lparr>idField = None\<rparr> (numbered_rows 150000) False
                        (constructor None))) = 0 \<and>
   Max (keys (snd (setData 100000 \<lparr>idField = None\<rparr> (numbered_rows 150000) False
                     (constructor None)))) = 150000 \<and>
   fst (resolveId \<lparr>idField = None\<rparr> [''name'' \<mapsto> JStr ''Dave'']
         (snd (setData 100000 \<lparr>idField = None\<rparr> (numbered_rows 150000) False
                (constructor None)))) = 1 \<and>
   1 \<in> keys (snd (setData 100000 \<lparr>idField = None\<rparr> (numbered_rows 150000) False
                     (constructor None)))"
proof -
  have l: "(100000::nat) < 150000" by simp
  have h: "getProp [''name'' \<mapsto> JStr ''Dave''] ''id'' = Undefined \<and>
           getProp [''name'' \<mapsto> JStr ''Dave''] (idKey \<lparr>idField = None\<rparr>) = Undefined"
    by (simp add: getProp_def idKey_def Object_prototype_def)
  have m: "int 150000 = 150000" by simp
  show ?thesis
    using setData_large_map_throws[OF l, where opts = "\<lparr>idField = None\<rparr>" and keepFilters = False
            and pg = None and r = "[''name'' \<mapsto> JStr ''Dave'']"] h
    unfolding m by blast
qed

text \<open>
  Claim C10, as amended. A record whose id value (\<open>row.id || row[idField]\<close>) has
  the number 0 or \<open>NaN\<close> gets the next value of the counter as its id, which is the
  counter plus 1 while the counter is a safe integer. When the counter is not negative and
  0 is not a key at the start of a \<open>setData\<close> call, 0 is not a key after it, so that an
  id of 0 given by the caller is not stored as 0.
\<close>

theorem falsy_id_gets_counter:
  "((ToNumber (js_or (getProp r ''id'') (getProp r (idKey opts))) = NaN \<or>
     ToNumber (js_or (getProp r ''id'') (getProp r (idKey opts))) = Num 0) \<longrightarrow>
      resolveId opts r s =
        (increment (rowIdCounter s), s\<lparr>rowIdCounter := increment (rowIdCounter s)\<rparr>)) \<and>
   (- (2 ^ 53) \<le> rowIdCounter s \<and> rowIdCounter s < 2 ^ 53 \<longrightarrow>
      increment (rowIdCounter s) = rowIdCounter s + 1) \<and>
   (0 \<le> rowIdCounter s \<and> 0 \<notin> keys s \<longrightarrow>
      0 \<notin> keys (snd (setData maxArguments opts rows kf s)))"
proof (intro conjI impI)
  assume "ToNumber (js_or (getProp r ''id'') (getProp r (idKey opts))) = NaN \<or>
     ToNumber (js_or (getProp r ''id'') (getProp r (idKey opts))) = Num 0"
  then show "resolveId opts r s =
        (increment (rowIdCounter s), s\<lparr>rowIdCounter := increment (rowIdCounter s)\<rparr>)"
    by (auto simp: resolveId_def)
next
  assume "- (2 ^ 53) \<le> rowIdCounter s \<and> rowIdCounter s < 2 ^ 53"
  then show "increment (rowIdCounter s) = rowIdCounter s + 1"
    by (simp add: increment_exact)
next
  assume "0 \<le> rowIdCounter s \<and> 0 \<notin> keys s"
  then have "0 \<notin> keys (fold (ingest opts) rows s)"
    using fold_ingest_nonneg[of s opts rows] by simp
  then show "0 \<notin> keys (snd (setData maxArguments opts rows kf s))" by (simp add: setData_fields)
qed

theorem falsy_id_gets_counter_witness:
  "resolveId \<lparr>idField = None\<rparr> [''id'' \<mapsto> JNum (Num 0)] example_table =
     (4, example_table\<lparr>rowIdCounter := 4\<rparr>) \<and>
   resolveId \<lparr>idField = None\<rparr> [''id'' \<mapsto> JStr ''abc''] example_table =
     (4, example_table\<lparr>rowIdCounter := 4\<rparr>) \<and>
   resolveId \<lparr>idField = None\<rparr> [''id'' \<mapsto> JStr ''''] example_table =
     (4, example_table\<lparr>rowIdCounter := 4\<rparr>) \<and>
   increment (rowIdCounter example_table) = rowIdCounter example_table + 1 \<and>
   0 \<notin> keys (snd (setData 65536 \<lparr>idField = None\<rparr> [[''id'' \<mapsto> JNum (Num 0)]] False
                     example_table))"
proof -
  have i4: "increment 3 = 4" by (simp add: increment_def)
  have na: "StringToNumber ''abc'' = NaN" by code_simp
  have c: "rowIdCounter example_table = 3" by (simp add: example_table_def)
  have k: "keys example_table = {1, 2, 3}" by (auto simp: keys_def example_table_def)
  have a1: "resolveId \<lparr>idField = None\<rparr> [''id'' \<mapsto> JNum (Num 0)] example_table =
     (4, example_table\<lparr>rowIdCounter := 4\<rparr>)"
    using falsy_id_gets_counter[where r = "[''id'' \<mapsto> JNum (Num 0)]" and opts = "\<lparr>idField = None\<rparr>"
        and s = example_table, THEN conjunct1]
    by (simp add: getProp_def js_or_def idKey_def c i4 Object_prototype_def)
  have a2: "resolveId \<lparr>idField = None\<rparr> [''id'' \<mapsto> JStr ''abc''] example_table =
     (4, example_table\<lparr>rowIdCounter := 4\<rparr>)"
    using falsy_id_gets_counter[where r = "[''id'' \<mapsto> JStr ''abc'']" and opts = "\<lparr>idField = None\<rparr>"
        and s = example_table, THEN conjunct1]
    by (simp add: getProp_def js_or_def idKey_def c na i4 Object_prototype_def)
  have a3: "resolveId \<lparr>idField = None\<rparr> [''id'' \<mapsto> JStr ''''] example_table =
     (4, example_table\<lparr>rowIdCounter := 4\<rparr>)"
    using falsy_id_gets_counter[where r = "[''id'' \<mapsto> JStr '''']" and opts = "\<lparr>idField = None\<rparr>"
        and s = example_table, THEN conjunct1]
    by (simp add: getProp_def js_or_def idKey_def c i4 Object_prototype_def)
  have a4: "0 \<notin> keys (snd (setData 65536 \<lparr>idField = None\<rparr> [[''id'' \<mapsto> JNum (Num 0)]] False
                     example_table))"
    using falsy_id_gets_counter[where s = example_table and opts = "\<lparr>idField = None\<rparr>"
        and rows = "[[''id'' \<mapsto> JNum (Num 0)]]" and kf = False and maxArguments = 65536,
        THEN conjunct2, THEN conjunct2]
    by (simp add: c k)
  have a5: "increment (rowIdCounter example_table) = rowIdCounter example_table + 1"
    using falsy_id_gets_counter[where s = example_table, THEN conjunct2, THEN conjunct1]
    by (simp add: c)
  show ?thesis using a1 a2 a3 a4 a5 by simp
qed

text \<open>
  Claim C10 as stated fails: after the record \<open>{id: -1}\<close> was ingested the counter
  is -1, and the record \<open>{id: 0}\<close> is then stored under the id 0.
\<close>

theorem zero_id_counterexample:
  "0 \<in> keys (snd (setData 65536 \<lparr>idField = None\<rparr> [[''id'' \<mapsto> JNum (Num 0)]] False
              (snd (setData 65536 \<lparr>idField = None\<rparr> [[''id'' \<mapsto> JNum (Num (- 1))]] False
                     (constructor None)))))"
  by (simp add: setData_def Let_def ingest_def resolveId_def js_or_def getProp_def idKey_def
        constructor_def keys_def Math_max_def increment_def Object_prototype_def)

end
